theory Spec2Isabelle
  imports Complex_Main
begin

section \<open>The DFTB+ relaxator of PyChemia (pychemia/code/dftb/\_relaxator.py)\<close>

text \<open>
  The Python class \<open>Relaxator\<close> drives an external DFTB+ process: it submits a run,
  polls it, reads the parsed output files, scores the progress of the run
  (\<open>Relaxator.quality\<close>) and decides how the next run is configured (\<open>Relaxator.run\<close>).

  Numbers read from the output files are modelled as \<open>real\<close>; the score is a Python
  integer, modelled as \<open>int\<close>. Exceptions are values of type \<open>error\<close>.
\<close>

subsection \<open>Exceptions and indexing\<close>

datatype error = IndexError | ValueError | TypeError

text \<open>
  \<open>xs[-1]\<close> raises \<open>IndexError\<close> on an empty sequence. Once it has returned, the
  sequence is not empty, and the later \<open>xs[-1]\<close> and \<open>xs[0]\<close> of the scorer are
  \<open>last xs\<close> and \<open>hd xs\<close>.
\<close>

definition item_last :: "real list \<Rightarrow> error + real" where
  "item_last xs = (if xs = [] then Inl IndexError else Inr (last xs))"

subsection \<open>The parsed progress log\<close>

text \<open>
  \<open>read_dftb_stdout\<close> returns \<open>(booleans, geom_optimization, stats)\<close>. The scorer reads
  the flag \<open>stats['ion_convergence']\<close> and the dictionary \<open>geom_optimization\<close>, whose keys
  \<open>'max_force'\<close> and \<open>'max_lattice_force'\<close> (each possibly missing) map to the sequence of
  values recorded during the run.
\<close>

record stats =
  ion_convergence :: bool

type_synonym geom_optimization = "string \<rightharpoonup> real list"

subsection \<open>The scorer: \<open>Relaxator.quality\<close>\<close>

text \<open>
  Line by line: the score is incremented; a missing \<open>'max_force'\<close> key returns at once;
  the last max force and the last max lattice force (\<open>None\<close> when the key is missing) are
  read; the bonus of 100 is added when both are below the target; the four remaining
  tests each add zero.
\<close>

definition lattice_last :: "geom_optimization \<Rightarrow> error + real option" where
  "lattice_last geom_optimization =
     (case geom_optimization ''max_lattice_force'' of
        None \<Rightarrow> Inr None
      | Some ml \<Rightarrow> (case item_last ml of Inl e \<Rightarrow> Inl e | Inr v \<Rightarrow> Inr (Some v)))"

definition trend_forces :: "real \<Rightarrow> real list \<Rightarrow> int \<Rightarrow> int" where
  "trend_forces target_forces mf score =
     (let score1 = (if last mf > target_forces then score + 0 else score);
          score2 = (if last mf < hd mf then score1 + 0 else score1)
      in score2)"

definition trend_lattice :: "real \<Rightarrow> geom_optimization \<Rightarrow> int \<Rightarrow> int" where
  "trend_lattice target_forces geom_optimization score =
     (case geom_optimization ''max_lattice_force'' of
        None \<Rightarrow> score
      | Some ml \<Rightarrow>
          (let score1 = (if last ml > target_forces then score + 0 else score);
               score2 = (if last ml < hd ml then score1 + 0 else score1)
           in score2))"

definition quality :: "real \<Rightarrow> geom_optimization \<Rightarrow> stats \<Rightarrow> int \<Rightarrow> error + int" where
  "quality target_forces geom_optimization st score0 =
     (let score1 = score0 + 1;
          score2 = (if ion_convergence st then score1 + 0 else score1)
      in case geom_optimization ''max_force'' of
           None \<Rightarrow> Inr score2
         | Some mf \<Rightarrow>
             (case item_last mf of
                Inl e \<Rightarrow> Inl e
              | Inr max_force \<Rightarrow>
                  (case lattice_last geom_optimization of
                     Inl e \<Rightarrow> Inl e
                   | Inr max_lattice_force \<Rightarrow>
                       (let score3 =
                              (case max_lattice_force of
                                 None \<Rightarrow> score2
                               | Some mlf \<Rightarrow>
                                   if max_force < target_forces \<and> mlf < target_forces
                                   then score2 + 100 else score2)
                        in Inr (trend_lattice target_forces geom_optimization
                                  (trend_forces target_forces mf score3))))))"

text \<open>
  The controller calls the scorer once per evaluated run, each time on the score of the
  run before: \<open>score = self.quality(dftb, score)\<close>.
\<close>

fun quality_runs :: "real \<Rightarrow> (geom_optimization \<times> stats) list \<Rightarrow> int \<Rightarrow> error + int" where
  "quality_runs target_forces [] score = Inr score"
| "quality_runs target_forces (h # rest) score =
     (case quality target_forces (fst h) (snd h) score of
        Inl e \<Rightarrow> Inl e
      | Inr score' \<Rightarrow> quality_runs target_forces rest score')"

text \<open>
  The histories on which no index of the scorer is out of range: the key \<open>'max_force'\<close>
  is missing (the scorer returns before it indexes anything), or its sequence is not
  empty and the sequence of \<open>'max_lattice_force'\<close>, when that key is present, is not
  empty either.
\<close>

definition indexable :: "geom_optimization \<Rightarrow> bool" where
  "indexable geom_optimization =
     (case geom_optimization ''max_force'' of
        None \<Rightarrow> True
      | Some mf \<Rightarrow> mf \<noteq> [] \<and> geom_optimization ''max_lattice_force'' \<noteq> Some [])"

text \<open>The test of line 174: both keys present, both final values below the target.\<close>

definition earns_bonus :: "real \<Rightarrow> geom_optimization \<times> stats \<Rightarrow> bool" where
  "earns_bonus target_forces h =
     (case (fst h ''max_force'', fst h ''max_lattice_force'') of
        (Some mf, Some ml) \<Rightarrow>
          mf \<noteq> [] \<and> ml \<noteq> [] \<and> last mf < target_forces \<and> last ml < target_forces
      | _ \<Rightarrow> False)"

section \<open>The controller: \<open>Relaxator.__init__\<close> and \<open>Relaxator.run\<close>\<close>

subsection \<open>Data\<close>

text \<open>
  The structure is an opaque payload of type \<open>'st\<close>. The attribute \<open>self.structure\<close>
  is the field \<open>current_structure\<close> (\<open>structure\<close> is a reserved word here).
\<close>

record 'st relaxator =
  workdir :: string
  initial_structure :: 'st
  current_structure :: 'st
  slater_path :: string
  target_forces :: real
  waiting :: bool

text \<open>Values stored in the option dictionaries of the DFTB+ object.\<close>

datatype pyval = PBool bool | PFloat real | PInt int | PStr string

type_synonym pydict = "string \<rightharpoonup> pyval"

text \<open>
  The \<open>DFTBplus\<close> object, as far as \<open>run\<close> reads and assigns it. Its class is not
  part of the sources at hand: what its methods do to files and to the subprocess is
  recorded as an event, and \<open>basic_input\<close> is a parameter.
\<close>

record 'st dftbplus =
  dftb_workdir :: string
  dftb_structure :: 'st
  dftb_kpoints :: "string \<times> nat list"
  dftb_slater_koster :: string
  driver :: pydict
  hamiltonian :: pydict
  options :: pydict

datatype level = Info | Error | Debug

datatype event =
    Initialize | SetSlaterKoster | BasicInput | SetInputs | Run | Wait
  | GetGeometry | RollOutputs nat | RunStatus | Sleep nat
  | ReadDetailedOut | ReadDftbStdout | ReadGeometryGen
  | Log level string | Print string

text \<open>
  What is outside the class: the symmetrizer, \<open>DFTBplus.basic_input\<close>, and the value of
  \<open>np.max(a, x)\<close> with a float as second argument, which the two \<open>log.info\<close> calls of
  lines 67 and 75 evaluate (numpy reads that argument as the axis).
\<close>

record 'st externals =
  symmetrize :: "'st \<Rightarrow> 'st"
  basic_input :: "'st dftbplus \<Rightarrow> 'st dftbplus"
  np_max_axis :: "real list \<Rightarrow> real \<Rightarrow> error + real"

text \<open>
  What one pass of a polling loop observes: the exit status of the subprocess (\<open>None\<close>
  while it runs), and the files of the working directory as parsed by the readers
  (\<open>read_detailed_out\<close> gives forces, stress and total energy, the tensors flattened).
  The readers are not part of the sources at hand: what they return is taken as given,
  and a reader that raises is not covered.
\<close>

record 'st observation =
  poll :: "int option"
  detailed_exists :: bool
  detailed_out :: "real list option \<times> real list option \<times> real option"
  stdout_exists :: bool
  dftb_stdout :: "geom_optimization \<times> stats"
  geo_end_isfile :: bool
  geometry_gen :: 'st

text \<open>
  The state of \<open>run\<close>: the object, the local variables, the place of control and the
  events so far. \<open>MainLoop\<close> is the head of \<open>while True\<close> (line 47), \<open>StaticPoll\<close> the
  loop of line 119, \<open>FallbackPoll\<close> the loop of line 140.
\<close>

datatype pc = MainLoop | StaticPoll | FallbackPoll | Returned | Raised error

record 'st config =
  self :: "'st relaxator"
  dftb :: "'st dftbplus"
  irun :: nat
  score :: int
  pc :: pc
  trace :: "event list"

subsection \<open>The constructor\<close>

definition copy :: "'st \<Rightarrow> 'st" where
  "copy s = s"

definition Relaxator ::
  "'st externals \<Rightarrow> string \<Rightarrow> 'st \<Rightarrow> string \<Rightarrow> real \<Rightarrow> bool \<Rightarrow> 'st relaxator" where
  "Relaxator ext wd s sp tf w =
     \<lparr>workdir = wd,
      initial_structure = symmetrize ext s,
      current_structure = copy (symmetrize ext s),
      slater_path = sp,
      target_forces = tf,
      waiting = w\<rparr>"

subsection \<open>The pieces of \<open>run\<close>\<close>

definition wait_if :: "bool \<Rightarrow> event list" where
  "wait_if w = (if w then [Wait] else [])"

definition emit :: "event list \<Rightarrow> 'st config \<Rightarrow> 'st config" where
  "emit evs c = c\<lparr>trace := trace c @ evs\<rparr>"

text \<open>Lines 29 to 46: the first run.\<close>

definition run_init :: "'st externals \<Rightarrow> 'st relaxator \<Rightarrow> 'st config" where
  "run_init ext slf =
     (let d0 = \<lparr>dftb_workdir = workdir slf,
                dftb_structure = current_structure slf,
                dftb_kpoints = (''gamma'', [7, 7, 7]),
                dftb_slater_koster = slater_path slf,
                driver = Map.empty, hamiltonian = Map.empty, options = Map.empty\<rparr>;
          d1 = basic_input ext d0;
          d2 = d1\<lparr>driver := (driver d1)
                       (''LatticeOpt'' \<mapsto> PBool False,
                        ''MaxForceComponent'' \<mapsto> PFloat (0.9 * target_forces slf),
                        ''ConvergentForcesOnly'' \<mapsto> PBool True,
                        ''MaxSteps'' \<mapsto> PInt 50),
                  hamiltonian := (hamiltonian d1)(''MaxSCCIterations'' \<mapsto> PInt 50)\<rparr>
      in \<lparr>self = slf, dftb = d2, irun = 0, score = 0, pc = MainLoop,
          trace = [Initialize, SetSlaterKoster, BasicInput, SetInputs, Run]
                    @ wait_if (waiting slf)\<rparr>)"

text \<open>Lines 56 to 60.\<close>

definition set_convergent_forces_only ::
  "real list option \<Rightarrow> real list option \<Rightarrow> pydict \<Rightarrow> pydict" where
  "set_convergent_forces_only forces stress drv =
     (if forces = None \<or> stress = None
      then drv(''ConvergentForcesOnly'' \<mapsto> PBool False)
      else drv(''ConvergentForcesOnly'' \<mapsto> PBool True))"

text \<open>\<open>np.max(np.abs(a.flatten()))\<close>; numpy raises \<open>ValueError\<close> on an empty array.\<close>

definition np_max_abs :: "real list \<Rightarrow> error + real" where
  "np_max_abs xs =
     (case xs of [] \<Rightarrow> Inl ValueError | x # rest \<Rightarrow> Inr (fold max (map abs rest) (abs x)))"

text \<open>
  Lines 63 to 68 for the forces, 71 to 76 for the stress: the tensor is good when it is
  present and its largest absolute component is below ten times the target; a tensor
  that is present and not good is logged.
\<close>

definition good_tensor ::
  "'st externals \<Rightarrow> real \<Rightarrow> string \<Rightarrow> real list option \<Rightarrow> error + bool \<times> event list" where
  "good_tensor ext tf label tensor =
     (case tensor of
        None \<Rightarrow> Inr (False, [])
      | Some xs \<Rightarrow>
          (case np_max_abs xs of
             Inl e \<Rightarrow> Inl e
           | Inr m \<Rightarrow>
               if m < 10 * tf then Inr (True, [])
               else (case np_max_axis ext (map abs xs) (10 * tf) of
                       Inl e \<Rightarrow> Inl e
                     | Inr v \<Rightarrow> Inr (False, [Log Info label]))))"

text \<open>
  Lines 54 to 79. The result is the state reached and either the exception raised or
  the two classifications.
\<close>

definition evaluate ::
  "'st externals \<Rightarrow> 'st observation \<Rightarrow> 'st config \<Rightarrow> 'st config \<times> (error + bool \<times> bool)" where
  "evaluate ext obs c =
     (case detailed_out obs of
        (forces, stress, total_energy) \<Rightarrow>
          (let tf = target_forces (self c);
               c1 = c\<lparr>dftb := (dftb c)
                            \<lparr>driver := set_convergent_forces_only forces stress
                                         (driver (dftb c))\<rparr>,
                      trace := trace c @ [ReadDetailedOut]\<rparr>
           in case good_tensor ext tf ''Forces: '' forces of
                Inl e \<Rightarrow> (c1, Inl e)
              | Inr gf \<Rightarrow>
                  (let c2 = emit (snd gf) c1
                   in case good_tensor ext tf ''Stress: '' stress of
                        Inl e \<Rightarrow> (c2, Inl e)
                      | Inr gs \<Rightarrow>
                          (let c3 = emit (snd gs @ [ReadDftbStdout]) c2
                           in case quality tf (fst (dftb_stdout obs)) (snd (dftb_stdout obs))
                                     (score c3) of
                                Inl e \<Rightarrow> (c3, Inl e)
                              | Inr sc \<Rightarrow>
                                  (emit [Log Debug ''Present score : ''] (c3\<lparr>score := sc\<rparr>),
                                   Inr (fst gf, fst gs))))))"

text \<open>Lines 82 to 93: an \<open>if\<close>/\<open>elif\<close> chain of three branches, with no \<open>else\<close>.\<close>

definition decide :: "bool \<Rightarrow> bool \<Rightarrow> pydict \<Rightarrow> pydict \<times> event list" where
  "decide good_forces good_stress drv =
     (if good_forces \<and> good_stress
      then (drv(''MovedAtoms'' \<mapsto> PStr ''1:-1'', ''LatticeOpt'' \<mapsto> PBool True),
            [Log Debug ''Convergence: Internals + Cell''])
      else if \<not> good_forces \<and> good_stress
      then (drv(''LatticeOpt'' \<mapsto> PBool False, ''MovedAtoms'' \<mapsto> PStr ''1:-1''),
            [Log Debug ''Convergence: Internals''])
      else if good_forces \<and> \<not> good_stress
      then (drv(''LatticeOpt'' \<mapsto> PBool True, ''MovedAtoms'' \<mapsto> PStr ''1:-1''),
            [Log Debug ''Convergence: Internals + Cell''])
      else (drv, []))"

definition apply_decision :: "bool \<Rightarrow> bool \<Rightarrow> 'st config \<Rightarrow> 'st config" where
  "apply_decision good_forces good_stress c =
     (let dec = decide good_forces good_stress (driver (dftb c))
      in emit (snd dec) (c\<lparr>dftb := (dftb c)\<lparr>driver := fst dec\<rparr>\<rparr>))"

text \<open>Lines 95 to 105, after the chain and outside it.\<close>

definition resubmit :: "'st externals \<Rightarrow> 'st observation \<Rightarrow> 'st config \<Rightarrow> 'st config" where
  "resubmit ext obs c =
     (let s = symmetrize ext (geometry_gen obs)
      in c\<lparr>dftb := (dftb c)\<lparr>dftb_structure := s\<rparr>,
           self := (self c)\<lparr>current_structure := s\<rparr>,
           trace := trace c @ [ReadGeometryGen, GetGeometry, RollOutputs (irun c), SetInputs]
                      @ [Run] @ wait_if (waiting (self c)),
           irun := irun c + 1\<rparr>)"

text \<open>\<open>get_final_geometry\<close>, lines 210 to 217.\<close>

definition get_final_geometry :: "'st observation \<Rightarrow> 'st relaxator \<Rightarrow> 'st" where
  "get_final_geometry obs slf =
     (if geo_end_isfile obs then geometry_gen obs else current_structure slf)"

text \<open>Lines 107 to 118: the final static calculation is submitted.\<close>

definition finalize :: "'st externals \<Rightarrow> 'st observation \<Rightarrow> 'st config \<Rightarrow> 'st config" where
  "finalize ext obs c =
     (let s = symmetrize ext (get_final_geometry obs (self c))
      in c\<lparr>dftb := (dftb c)
                     \<lparr>dftb_structure := s,
                      options := (options (dftb c))(''CalculateForces'' \<mapsto> PBool True),
                      driver := Map.empty\<rparr>,
           self := (self c)\<lparr>current_structure := s\<rparr>,
           trace := trace c @ [Log Debug ''Final static calculation'', GetGeometry,
                               RollOutputs (irun c), SetInputs, Run]
                      @ wait_if (waiting (self c)),
           pc := StaticPoll\<rparr>)"

text \<open>Lines 126 to 139: the fallback run after an incomplete static calculation.\<close>

definition fallback :: "'st externals \<Rightarrow> 'st config \<Rightarrow> 'st config" where
  "fallback ext c =
     (let d1 = basic_input ext (dftb c);
          d2 = d1\<lparr>driver := (driver d1)
                       (''LatticeOpt'' \<mapsto> PBool False,
                        ''MaxForceComponent'' \<mapsto> PFloat (0.9 * target_forces (self c)),
                        ''ConvergentForcesOnly'' \<mapsto> PBool False,
                        ''MaxSteps'' \<mapsto> PInt 10),
                  hamiltonian := (hamiltonian d1)(''MaxSCCIterations'' \<mapsto> PInt 50)\<rparr>
      in c\<lparr>dftb := d2,
           trace := trace c @ [Log Debug ''Avoiding a static run relaxing and exiting'',
                               BasicInput, Print ''driver'', SetInputs, Run]
                      @ wait_if (waiting (self c)),
           pc := FallbackPoll\<rparr>)"

subsection \<open>One pass of a loop\<close>

text \<open>
  A pass of \<open>while True\<close> (lines 48 to 149) as far as the next loop head, a pass of the
  loop of line 119 together with lines 122 to 143 once it exits, and a pass of the loop
  of line 140 together with lines 142 and 143. After \<open>dftb.run()\<close> the runner exists, so
  the test of line 48 is the test of \<open>poll()\<close>.
\<close>

definition main_pass :: "'st externals \<Rightarrow> 'st observation \<Rightarrow> 'st config \<Rightarrow> 'st config" where
  "main_pass ext obs c =
     (case poll obs of
        None \<Rightarrow>
          emit ([Log Debug ''ID: %s''] @ (if stdout_exists obs then [ReadDftbStdout] else [])
                  @ [Sleep 10]) c
      | Some rc \<Rightarrow>
          (let c0 = emit [Log Info ''Execution completed. Return code %d''] c
           in if \<not> detailed_exists obs
              then (emit [Log Error ''Could not find ''] c0)\<lparr>pc := Returned\<rparr>
              else (case evaluate ext obs c0 of
                      (c1, Inl e) \<Rightarrow> c1\<lparr>pc := Raised e\<rparr>
                    | (c1, Inr (good_forces, good_stress)) \<Rightarrow>
                        if score c1 < 20
                        then resubmit ext obs (apply_decision good_forces good_stress c1)
                        else finalize ext obs c1)))"

definition static_pass :: "'st externals \<Rightarrow> 'st observation \<Rightarrow> 'st config \<Rightarrow> 'st config" where
  "static_pass ext obs c =
     (case poll obs of
        None \<Rightarrow> emit [RunStatus, Sleep 10] c
      | Some rc \<Rightarrow>
          (let c0 = emit [Log Debug ''I am alive!!!'', ReadDetailedOut] c
           in case detailed_out obs of
                (forces, stress, total_energy) \<Rightarrow>
                  if stress = None \<or> forces = None \<or> total_energy = None
                  then fallback ext c0
                  else c0\<lparr>pc := Returned\<rparr>))"

definition fallback_pass :: "'st observation \<Rightarrow> 'st config \<Rightarrow> 'st config" where
  "fallback_pass obs c =
     (case poll obs of
        None \<Rightarrow> emit [Sleep 10] c
      | Some rc \<Rightarrow> (emit [ReadDetailedOut, Print ''FINAL:''] c)\<lparr>pc := Returned\<rparr>)"

definition step :: "'st externals \<Rightarrow> 'st observation \<Rightarrow> 'st config \<Rightarrow> 'st config" where
  "step ext obs c =
     (case pc c of
        MainLoop \<Rightarrow> main_pass ext obs c
      | StaticPoll \<Rightarrow> static_pass ext obs c
      | FallbackPoll \<Rightarrow> fallback_pass obs c
      | Returned \<Rightarrow> c
      | Raised e \<Rightarrow> c)"

text \<open>
  \<open>run\<close> on a finite sequence of observations, one per pass. The loops of \<open>run\<close> need
  not end: the process may never exit. A run that has ended is in \<open>Returned\<close> or
  \<open>Raised\<close> and stays there.
\<close>

fun run_steps :: "'st externals \<Rightarrow> 'st observation list \<Rightarrow> 'st config \<Rightarrow> 'st config" where
  "run_steps ext [] c = c"
| "run_steps ext (obs # rest) c = run_steps ext rest (step ext obs c)"

definition run :: "'st externals \<Rightarrow> 'st observation list \<Rightarrow> 'st relaxator \<Rightarrow> 'st config" where
  "run ext obss slf = run_steps ext obss (run_init ext slf)"

text \<open>
  The evaluation of a pass of the main loop whose process has exited and whose
  \<open>detailed.out\<close> exists: lines 49 to 79, up to the test of the score in line 80.
\<close>

definition evaluation ::
  "'st externals \<Rightarrow> 'st observation \<Rightarrow> 'st config \<Rightarrow> 'st config \<times> (error + bool \<times> bool)" where
  "evaluation ext obs c =
     evaluate ext obs (emit [Log Info ''Execution completed. Return code %d''] c)"

text \<open>The events of a pass: what the trace has gained.\<close>

definition new_events :: "'st config \<Rightarrow> 'st config \<Rightarrow> event list" where
  "new_events c c' = drop (length (trace c)) (trace c')"

subsection \<open>Sample inputs\<close>

text \<open>
  A job on structures named by numbers: the symmetrizer is the identity (the fallback of
  lines 13 and 14), \<open>basic_input\<close> leaves the dictionaries alone, and the \<open>np.max\<close> call
  with a float axis raises.
\<close>

definition sample_externals :: "nat externals" where
  "sample_externals =
     \<lparr>symmetrize = (\<lambda>s. s), basic_input = (\<lambda>d. d), np_max_axis = (\<lambda>xs a. Inl TypeError)\<rparr>"

definition sample_job :: "nat relaxator" where
  "sample_job = Relaxator sample_externals ''work'' 1 ''sk'' (1 / 1000) False"

definition sample_observation ::
  "int option \<Rightarrow> bool \<Rightarrow> real list option \<Rightarrow> real list option \<Rightarrow> geom_optimization
     \<Rightarrow> nat observation" where
  "sample_observation p ex forces stress go =
     \<lparr>poll = p, detailed_exists = ex, detailed_out = (forces, stress, None),
      stdout_exists = True, dftb_stdout = (go, \<lparr>ion_convergence = False\<rparr>),
      geo_end_isfile = True, geometry_gen = 2\<rparr>"

section \<open>Properties of the scorer\<close>

lemma trend_forces_id: "trend_forces t mf s = s"
  by (simp add: trend_forces_def)

lemma trend_lattice_id: "trend_lattice t go s = s"
  by (simp add: trend_lattice_def split: option.split)

lemma quality_no_max_force:
  "go ''max_force'' = None \<Longrightarrow> quality t go st s = Inr (s + 1)"
  by (simp add: quality_def Let_def)

lemma quality_both:
  assumes "go ''max_force'' = Some mf" "mf \<noteq> []"
      and "go ''max_lattice_force'' = Some ml" "ml \<noteq> []"
  shows "quality t go st s =
           Inr (if last mf < t \<and> last ml < t then s + 101 else s + 1)"
  using assms
  by (simp add: quality_def Let_def lattice_last_def item_last_def trend_forces_id
      trend_lattice_id)

lemma quality_forces_only:
  assumes "go ''max_force'' = Some mf" "mf \<noteq> []" "go ''max_lattice_force'' = None"
  shows "quality t go st s = Inr (s + 1)"
  using assms
  by (simp add: quality_def Let_def lattice_last_def item_last_def trend_forces_id
      trend_lattice_id)

lemma quality_not_indexable:
  assumes "\<not> indexable go"
  shows "quality t go st s = Inl IndexError"
  using assms
  by (auto simp: quality_def Let_def indexable_def lattice_last_def item_last_def
           split: option.splits)

lemma quality_indexable:
  assumes "indexable go"
  shows "quality t go st s = Inr (if earns_bonus t (go, st) then s + 101 else s + 1)"
proof (cases "go ''max_force''")
  case None
  then show ?thesis by (simp add: quality_no_max_force earns_bonus_def)
next
  case (Some mf)
  with assms have mf: "mf \<noteq> []" by (simp add: indexable_def)
  show ?thesis
  proof (cases "go ''max_lattice_force''")
    case None
    with Some mf show ?thesis by (simp add: quality_forces_only earns_bonus_def)
  next
    case (Some ml)
    with assms \<open>go ''max_force'' = Some mf\<close> have "ml \<noteq> []"
      by (auto simp: indexable_def)
    with Some \<open>go ''max_force'' = Some mf\<close> mf show ?thesis
      by (simp add: quality_both earns_bonus_def)
  qed
qed

lemma quality_char:
  "quality t go st s =
     (if indexable go then Inr (if earns_bonus t (go, st) then s + 101 else s + 1)
      else Inl IndexError)"
  by (simp add: quality_indexable quality_not_indexable)

lemma quality_runs_total:
  "quality_runs t hs s =
     (if list_all (\<lambda>h. indexable (fst h)) hs
      then Inr (s + int (length hs) + 100 * int (length (filter (earns_bonus t) hs)))
      else Inl IndexError)"
proof (induction hs arbitrary: s)
  case Nil
  then show ?case by simp
next
  case (Cons h hs)
  show ?case
  proof (cases "indexable (fst h)")
    case False
    then show ?thesis by (simp add: quality_not_indexable)
  next
    case True
    have q: "quality t (fst h) (snd h) s =
               Inr (if earns_bonus t h then s + 101 else s + 1)"
      using quality_indexable [OF True, of t "snd h" s] by simp
    show ?thesis using True by (simp add: q Cons.IH)
  qed
qed


lemma quality_runs_snoc:
  assumes "quality_runs t hs s = Inr r" "quality_runs t (hs @ [h]) s = Inr r'"
  shows "r' = (if earns_bonus t h then r + 101 else r + 1)"
  using assms by (simp add: quality_runs_total split: if_splits)

subsection \<open>The bonus of 100\<close>

text \<open>
  Claim C3. When both sequences of the progress history are present and not empty, the
  scorer returns the previous score plus 101 if the last max force and the last max
  lattice force are both strictly below the target, and the previous score plus 1 (no
  bonus) if one of them is not.
\<close>

theorem quality_bonus_iff_both_below_target:
  assumes "go ''max_force'' = Some mf" and "mf \<noteq> []"
      and "go ''max_lattice_force'' = Some ml" and "ml \<noteq> []"
  shows "(last mf < t \<and> last ml < t \<longrightarrow> quality t go st s = Inr (s + 101)) \<and>
         (\<not> (last mf < t \<and> last ml < t) \<longrightarrow> quality t go st s = Inr (s + 1))"
  using quality_both [OF assms, of t st s] by simp

theorem quality_bonus_iff_both_below_target_witness:
  "quality (1 / 1000)
     [''max_force'' \<mapsto> [1 / 100, 1 / 2000], ''max_lattice_force'' \<mapsto> [1 / 50, 1 / 4000]]
     \<lparr>ion_convergence = True\<rparr> 7 = Inr 108 \<and>
   quality (1 / 1000)
     [''max_force'' \<mapsto> [1 / 100, 1 / 2000], ''max_lattice_force'' \<mapsto> [1 / 50, 1 / 1000]]
     \<lparr>ion_convergence = True\<rparr> 7 = Inr 8"
  using quality_bonus_iff_both_below_target
          [of "[''max_force'' \<mapsto> [1 / 100, 1 / 2000],
                ''max_lattice_force'' \<mapsto> [1 / 50, 1 / 4000]]"
              "[1 / 100, 1 / 2000]" "[1 / 50, 1 / 4000]" "1 / 1000"
              "\<lparr>ion_convergence = True\<rparr>" 7]
        quality_bonus_iff_both_below_target
          [of "[''max_force'' \<mapsto> [1 / 100, 1 / 2000],
                ''max_lattice_force'' \<mapsto> [1 / 50, 1 / 1000]]"
              "[1 / 100, 1 / 2000]" "[1 / 50, 1 / 1000]" "1 / 1000"
              "\<lparr>ion_convergence = True\<rparr>" 7]
  by simp

subsection \<open>A history without a max-force entry\<close>

text \<open>
  Claim C4, as stated: on a history with no \<open>'max_force'\<close> key the scorer returns the
  incoming score unchanged. It does not: the increment of line 159 comes before the
  early return of line 167. From the score 0 and the empty history the scorer returns 1.
\<close>

theorem quality_no_max_force_counterexample:
  "Map.empty ''max_force'' = (None :: real list option) \<and>
   quality (1 / 1000) Map.empty \<lparr>ion_convergence = False\<rparr> 0 \<noteq> Inr 0"
  by (simp add: quality_def)

text \<open>
  Claim C4, amended: on a history with no \<open>'max_force'\<close> key the scorer returns the
  incoming score plus 1 (the early return comes after the per-run increment and adds no
  bonus).
\<close>

theorem quality_no_max_force_increments:
  assumes "go ''max_force'' = None"
  shows "quality t go st s = Inr (s + 1)"
  using assms by (rule quality_no_max_force)

theorem quality_no_max_force_increments_witness:
  "quality (1 / 1000) [''max_lattice_force'' \<mapsto> [1 / 2000]] \<lparr>ion_convergence = True\<rparr> 4
     = Inr 5"
  using quality_no_max_force_increments
          [of "[''max_lattice_force'' \<mapsto> [1 / 2000]]" "1 / 1000"
              "\<lparr>ion_convergence = True\<rparr>" 4]
  by simp

subsection \<open>The score never decreases\<close>

text \<open>
  Claim C6. Whatever the previous score and the progress history, a score returned by the
  scorer is at least the previous score plus 1, so it never decreases; the scorer does
  return a score on every history on which its indexing is in range; and over a
  sequence of runs the score after one more run is at least the score before it plus 1.
\<close>

theorem quality_monotone:
  "(\<forall>r. quality t go st s = Inr r \<longrightarrow> s \<le> r \<and> s + 1 \<le> r) \<and>
   (indexable go \<longrightarrow> (\<exists>r. quality t go st s = Inr r)) \<and>
   (\<forall>r r'. quality_runs t hs s = Inr r \<longrightarrow> quality_runs t (hs @ [h]) s = Inr r'
      \<longrightarrow> s \<le> r \<and> r + 1 \<le> r')"
proof (intro conjI allI impI)
  fix r assume "quality t go st s = Inr r"
  then show "s \<le> r" "s + 1 \<le> r"
    by (auto simp: quality_char split: if_splits)
next
  assume "indexable go"
  then show "\<exists>r. quality t go st s = Inr r" by (simp add: quality_indexable)
next
  fix r r' assume a: "quality_runs t hs s = Inr r" "quality_runs t (hs @ [h]) s = Inr r'"
  from a(1) show "s \<le> r" by (simp add: quality_runs_total split: if_splits)
  from quality_runs_snoc [OF a] show "r + 1 \<le> r'" by (simp split: if_splits)
qed

theorem quality_monotone_witness:
  "(\<exists>r. quality (1 / 1000) [''max_force'' \<mapsto> [1 / 100]] \<lparr>ion_convergence = False\<rparr> 5 = Inr r
        \<and> 6 \<le> r) \<and>
   quality_runs (1 / 1000) [(Map.empty, \<lparr>ion_convergence = False\<rparr>)] 5 = Inr 6 \<and>
   quality_runs (1 / 1000)
     ([(Map.empty, \<lparr>ion_convergence = False\<rparr>)] @
      [([''max_force'' \<mapsto> [1 / 100]], \<lparr>ion_convergence = False\<rparr>)]) 5 = Inr 7"
  using quality_monotone
          [of "1 / 1000" "[''max_force'' \<mapsto> [1 / 100]]" "\<lparr>ion_convergence = False\<rparr>" 5
              "[(Map.empty, \<lparr>ion_convergence = False\<rparr>)]"
              "([''max_force'' \<mapsto> [1 / 100]], \<lparr>ion_convergence = False\<rparr>)"]
  by (auto simp: indexable_def quality_runs_total earns_bonus_def)

subsection \<open>Scenario A of the specification\<close>

text \<open>
  Claim C7, as stated: with the target 1e-3 and the score 0, a history that ends with a
  max force of 5e-3 and a max lattice force of 5e-3 makes the scorer return 101. It does
  not: the scorer compares with the target itself, and 5e-3 is not below 1e-3.
\<close>

theorem scenario_A_bonus_counterexample:
  "quality (1 / 1000)
     [''max_force'' \<mapsto> [5 / 1000], ''max_lattice_force'' \<mapsto> [5 / 1000]]
     \<lparr>ion_convergence = False\<rparr> 0 \<noteq> Inr 101"
  by (simp add: quality_def lattice_last_def item_last_def trend_forces_id trend_lattice_id)

text \<open>
  Claim C7, amended: with the target 1e-3 and the score 0, a history whose max-force
  sequence ends with 5e-3 and whose max-lattice-force sequence ends with 5e-3, whatever
  was recorded before, makes the scorer return 1, the per-run increment alone; the bonus
  needs both final values strictly below the target 1e-3.
\<close>

theorem quality_scenario_A_returns_1:
  assumes "go ''max_force'' = Some (mf @ [5 / 1000])"
      and "go ''max_lattice_force'' = Some (ml @ [5 / 1000])"
  shows "quality (1 / 1000) go st 0 = Inr 1"
  using quality_both [OF assms(1) _ assms(2), of "1 / 1000" st 0] by simp

theorem quality_scenario_A_returns_1_witness:
  "quality (1 / 1000)
     [''max_force'' \<mapsto> [1 / 2000, 5 / 1000], ''max_lattice_force'' \<mapsto> [1 / 4000, 5 / 1000]]
     \<lparr>ion_convergence = True\<rparr> 0 = Inr 1"
  using quality_scenario_A_returns_1 [of "[''max_force'' \<mapsto> [1 / 2000, 5 / 1000],
                 ''max_lattice_force'' \<mapsto> [1 / 4000, 5 / 1000]]"
               "[1 / 2000]" "[1 / 4000]" "\<lparr>ion_convergence = True\<rparr>"]
  by simp

subsection \<open>The only increments are 1 and 101\<close>

text \<open>
  Claim C9. On a history with a max-force entry the scorer returns the previous score
  plus 1 or plus 101 and nothing else (it does return one of the two when its indexing
  is in range). Hence the score reached from 0 by a sequence of scored runs is the number
  of runs plus 100 for each run that earned the bonus, and it is at least 20 exactly
  when some run earned the bonus or there were at least 20 runs.
\<close>

theorem quality_increment_1_or_101:
  "(\<forall>mf r. go ''max_force'' = Some mf \<longrightarrow> quality t go st s = Inr r \<longrightarrow>
        r - s = 1 \<or> r - s = 101) \<and>
   (\<forall>mf. go ''max_force'' = Some mf \<longrightarrow> indexable go \<longrightarrow>
        quality t go st s = Inr (s + 1) \<or> quality t go st s = Inr (s + 101)) \<and>
   (\<forall>r. quality_runs t hs 0 = Inr r \<longrightarrow>
        r = int (length hs) + 100 * int (length (filter (earns_bonus t) hs)) \<and>
        (20 \<le> r \<longleftrightarrow> (\<exists>h \<in> set hs. earns_bonus t h) \<or> 20 \<le> length hs))"
proof (intro conjI allI impI)
  fix mf r assume "go ''max_force'' = Some mf" "quality t go st s = Inr r"
  then show "r - s = 1 \<or> r - s = 101"
    by (auto simp: quality_char split: if_splits)
next
  fix mf assume "go ''max_force'' = Some mf" "indexable go"
  then show "quality t go st s = Inr (s + 1) \<or> quality t go st s = Inr (s + 101)"
    by (simp add: quality_indexable)
next
  fix r assume a: "quality_runs t hs 0 = Inr r"
  then show r: "r = int (length hs) + 100 * int (length (filter (earns_bonus t) hs))"
    by (simp add: quality_runs_total split: if_splits)
  show "20 \<le> r \<longleftrightarrow> (\<exists>h \<in> set hs. earns_bonus t h) \<or> 20 \<le> length hs"
  proof (cases "filter (earns_bonus t) hs = []")
    case True
    then have "\<not> (\<exists>h \<in> set hs. earns_bonus t h)" by (simp add: filter_empty_conv)
    with r True show ?thesis by simp
  next
    case False
    then have ex: "\<exists>h \<in> set hs. earns_bonus t h" by (simp add: filter_empty_conv)
    from False have "1 \<le> length (filter (earns_bonus t) hs)"
      by (cases "filter (earns_bonus t) hs") simp_all
    with r have "100 \<le> r" by simp
    with ex show ?thesis by simp
  qed
qed

theorem quality_increment_1_or_101_witness:
  "quality (1 / 1000) [''max_force'' \<mapsto> [1 / 100]] \<lparr>ion_convergence = False\<rparr> 3 = Inr 4 \<and>
   quality_runs (1 / 1000)
     [([''max_force'' \<mapsto> [1 / 2000], ''max_lattice_force'' \<mapsto> [1 / 2000]],
       \<lparr>ion_convergence = False\<rparr>)] 0 = Inr 101"
  using quality_increment_1_or_101
          [of "[''max_force'' \<mapsto> [1 / 100]]" "1 / 1000" "\<lparr>ion_convergence = False\<rparr>" 3
              "[([''max_force'' \<mapsto> [1 / 2000], ''max_lattice_force'' \<mapsto> [1 / 2000]],
                 \<lparr>ion_convergence = False\<rparr>)]"]
  by (auto simp: indexable_def quality_runs_total earns_bonus_def quality_char)

section \<open>Properties of the controller\<close>

subsection \<open>The pieces, field by field\<close>

lemma emit_simps [simp]:
  "self (emit evs c) = self c" "dftb (emit evs c) = dftb c" "irun (emit evs c) = irun c"
  "score (emit evs c) = score c" "pc (emit evs c) = pc c"
  "trace (emit evs c) = trace c @ evs"
  by (simp_all add: emit_def)

lemma new_events_append [simp]:
  "trace c' = trace c @ evs \<Longrightarrow> new_events c c' = evs"
  by (simp add: new_events_def)

lemma evaluate_frame:
  assumes "evaluate ext obs c = (c1, out)"
  shows "self c1 = self c" "irun c1 = irun c" "pc c1 = pc c"
    "driver (dftb c1) =
       set_convergent_forces_only (fst (detailed_out obs)) (fst (snd (detailed_out obs)))
         (driver (dftb c))"
    "\<exists>evs. trace c1 = trace c @ evs"
  using assms
  by (auto simp: evaluate_def Let_def split: prod.splits sum.splits)

lemma evaluate_score:
  assumes "evaluate ext obs c = (c1, Inr g)"
  shows "quality (target_forces (self c)) (fst (dftb_stdout obs)) (snd (dftb_stdout obs))
           (score c) = Inr (score c1)"
  using assms
  by (auto simp: evaluate_def Let_def split: prod.splits sum.splits)

lemma evaluate_score_raised:
  assumes "evaluate ext obs c = (c1, Inl e)"
  shows "score c1 = score c"
  using assms
  by (auto simp: evaluate_def Let_def split: prod.splits sum.splits)

lemma evaluation_frame:
  assumes "evaluation ext obs c = (c1, out)"
  shows "self c1 = self c" "irun c1 = irun c" "pc c1 = pc c"
    "driver (dftb c1) =
       set_convergent_forces_only (fst (detailed_out obs)) (fst (snd (detailed_out obs)))
         (driver (dftb c))"
    "\<exists>evs. trace c1 = trace c @ evs"
  using evaluate_frame [OF assms [unfolded evaluation_def]] by auto

lemma evaluation_score:
  assumes "evaluation ext obs c = (c1, Inr g)"
  shows "quality (target_forces (self c)) (fst (dftb_stdout obs)) (snd (dftb_stdout obs))
           (score c) = Inr (score c1)"
  using evaluate_score [OF assms [unfolded evaluation_def]] by simp

lemma evaluation_returns:
  assumes "detailed_out obs = (forces, stress, total_energy)"
      and "good_tensor ext (target_forces (self c)) ''Forces: '' forces = Inr gf"
      and "good_tensor ext (target_forces (self c)) ''Stress: '' stress = Inr gs"
      and "indexable (fst (dftb_stdout obs))"
  shows "\<exists>c1. evaluation ext obs c = (c1, Inr (fst gf, fst gs))"
  using assms
  by (simp add: evaluation_def evaluate_def Let_def quality_indexable)

lemma step_evaluated:
  assumes "pc c = MainLoop" "poll obs = Some rc" "detailed_exists obs"
      and "evaluation ext obs c = (c1, Inr (good_forces, good_stress))"
  shows "step ext obs c =
           (if score c1 < 20
            then resubmit ext obs (apply_decision good_forces good_stress c1)
            else finalize ext obs c1)"
  using assms by (simp add: step_def main_pass_def evaluation_def Let_def)

lemma step_raised:
  assumes "pc c = MainLoop" "poll obs = Some rc" "detailed_exists obs"
      and "evaluation ext obs c = (c1, Inl e)"
  shows "step ext obs c = c1\<lparr>pc := Raised e\<rparr>"
  using assms by (simp add: step_def main_pass_def evaluation_def Let_def)

lemma step_missing:
  assumes "pc c = MainLoop" "poll obs = Some rc" "\<not> detailed_exists obs"
  shows "step ext obs c =
           (emit [Log Info ''Execution completed. Return code %d'',
                  Log Error ''Could not find ''] c)\<lparr>pc := Returned\<rparr>"
  using assms by (simp add: step_def main_pass_def Let_def emit_def)

lemma step_waiting:
  assumes "pc c = MainLoop" "poll obs = None"
  shows "step ext obs c =
           emit ([Log Debug ''ID: %s''] @ (if stdout_exists obs then [ReadDftbStdout] else [])
                   @ [Sleep 10]) c"
  using assms by (simp add: step_def main_pass_def)

lemma resubmit_simps:
  "self (resubmit ext obs c) = (self c)\<lparr>current_structure := symmetrize ext (geometry_gen obs)\<rparr>"
  "dftb (resubmit ext obs c) = (dftb c)\<lparr>dftb_structure := symmetrize ext (geometry_gen obs)\<rparr>"
  "irun (resubmit ext obs c) = irun c + 1"
  "score (resubmit ext obs c) = score c"
  "pc (resubmit ext obs c) = pc c"
  "trace (resubmit ext obs c) =
     trace c @ [ReadGeometryGen, GetGeometry, RollOutputs (irun c), SetInputs, Run]
       @ wait_if (waiting (self c))"
  by (simp_all add: resubmit_def Let_def)

lemma apply_decision_simps:
  "self (apply_decision gf gs c) = self c"
  "dftb (apply_decision gf gs c) = (dftb c)\<lparr>driver := fst (decide gf gs (driver (dftb c)))\<rparr>"
  "irun (apply_decision gf gs c) = irun c"
  "score (apply_decision gf gs c) = score c"
  "pc (apply_decision gf gs c) = pc c"
  "trace (apply_decision gf gs c) = trace c @ snd (decide gf gs (driver (dftb c)))"
  by (simp_all add: apply_decision_def Let_def)

lemma finalize_simps:
  "self (finalize ext obs c) =
     (self c)\<lparr>current_structure := symmetrize ext (get_final_geometry obs (self c))\<rparr>"
  "irun (finalize ext obs c) = irun c"
  "score (finalize ext obs c) = score c"
  "pc (finalize ext obs c) = StaticPoll"
  "trace (finalize ext obs c) =
     trace c @ [Log Debug ''Final static calculation'', GetGeometry, RollOutputs (irun c),
                SetInputs, Run] @ wait_if (waiting (self c))"
  "driver (dftb (finalize ext obs c)) = Map.empty"
  by (simp_all add: finalize_def Let_def)

lemma decide_cfo:
  "fst (decide gf gs drv) ''ConvergentForcesOnly'' = drv ''ConvergentForcesOnly''"
  by (simp add: decide_def)

lemma decide_unmatched: "decide False False drv = (drv, [])"
  by (simp add: decide_def)

lemma decide_events_no_final:
  "Log Debug ''Final static calculation'' \<notin> set (snd (decide gf gs drv))"
  by (simp add: decide_def)

lemma wait_if_no_log: "Log l m \<notin> set (wait_if w)"
  by (simp add: wait_if_def)

lemma set_cfo_value:
  "set_convergent_forces_only forces stress drv ''ConvergentForcesOnly'' =
     Some (PBool (forces \<noteq> None \<and> stress \<noteq> None))"
  by (simp add: set_convergent_forces_only_def)

lemma run_steps_append:
  "run_steps ext (xs @ ys) c = run_steps ext ys (run_steps ext xs c)"
  by (induction xs arbitrary: c) simp_all

lemma run_steps_ended:
  "pc c = Returned \<or> pc c = Raised e \<Longrightarrow> run_steps ext obss c = c"
  by (induction obss) (auto simp: step_def)

lemma run_steps_waiting:
  assumes "pc c = MainLoop" "list_all (\<lambda>w. poll w = None) waits"
  shows "self (run_steps ext waits c) = self c \<and> dftb (run_steps ext waits c) = dftb c \<and>
         irun (run_steps ext waits c) = irun c \<and> score (run_steps ext waits c) = score c \<and>
         pc (run_steps ext waits c) = MainLoop \<and>
         Run \<notin> set (new_events c (run_steps ext waits c)) \<and>
         (\<exists>evs. trace (run_steps ext waits c) = trace c @ evs)"
  using assms
proof (induction waits arbitrary: c)
  case Nil
  then show ?case by (simp add: new_events_def)
next
  case (Cons w waits)
  from Cons.prems have w: "poll w = None" and ws: "list_all (\<lambda>w. poll w = None) waits"
    by simp_all
  let ?c = "step ext w c"
  have s: "?c = emit ([Log Debug ''ID: %s'']
                  @ (if stdout_exists w then [ReadDftbStdout] else []) @ [Sleep 10]) c"
    using step_waiting [OF Cons.prems(1) w] .
  have pc: "pc ?c = MainLoop" using Cons.prems(1) by (simp add: s)
  from Cons.IH [OF pc ws] obtain evs where
    ih: "self (run_steps ext waits ?c) = self ?c" "dftb (run_steps ext waits ?c) = dftb ?c"
        "irun (run_steps ext waits ?c) = irun ?c" "score (run_steps ext waits ?c) = score ?c"
        "pc (run_steps ext waits ?c) = MainLoop"
        "Run \<notin> set (new_events ?c (run_steps ext waits ?c))"
        "trace (run_steps ext waits ?c) = trace ?c @ evs" by blast
  have tr: "trace (run_steps ext (w # waits) c) =
              trace c @ ([Log Debug ''ID: %s'']
                  @ (if stdout_exists w then [ReadDftbStdout] else []) @ [Sleep 10] @ evs)"
    using ih(7) by (simp add: s)
  have "Run \<notin> set evs" using ih(6,7) by (simp add: new_events_def)
  then have "Run \<notin> set (new_events c (run_steps ext (w # waits) c))"
    by (simp add: new_events_append [OF tr] del: run_steps.simps)
  moreover have "\<exists>evs. trace (run_steps ext (w # waits) c) = trace c @ evs"
    using tr by blast
  ultimately show ?case using ih(1-5) by (simp add: s)
qed

lemma run_init_simps:
  "self (run_init ext slf) = slf" "irun (run_init ext slf) = 0" "score (run_init ext slf) = 0"
  "pc (run_init ext slf) = MainLoop"
  "trace (run_init ext slf) =
     [Initialize, SetSlaterKoster, BasicInput, SetInputs, Run] @ wait_if (waiting slf)"
  by (simp_all add: run_init_def Let_def)

lemma step_self_frame:
  "workdir (self (step ext obs c)) = workdir (self c) \<and>
   initial_structure (self (step ext obs c)) = initial_structure (self c) \<and>
   slater_path (self (step ext obs c)) = slater_path (self c) \<and>
   target_forces (self (step ext obs c)) = target_forces (self c) \<and>
   waiting (self (step ext obs c)) = waiting (self c)"
proof (cases "pc c")
  case MainLoop
  show ?thesis
  proof (cases "poll obs")
    case None
    with MainLoop show ?thesis by (simp add: step_waiting)
  next
    case (Some rc)
    show ?thesis
    proof (cases "detailed_exists obs")
      case False
      with MainLoop Some show ?thesis by (simp add: step_missing)
    next
      case True
      obtain c1 out where ev: "evaluation ext obs c = (c1, out)"
        by (cases "evaluation ext obs c")
      note fr = evaluation_frame(1) [OF ev]
      show ?thesis
      proof (cases out)
        case (Inl e)
        with step_raised [OF MainLoop Some True] ev fr show ?thesis by simp
      next
        case (Inr g)
        obtain gf gs where "g = (gf, gs)" by (cases g)
        with step_evaluated [OF MainLoop Some True] ev Inr fr show ?thesis
          by (simp add: resubmit_simps apply_decision_simps finalize_simps)
      qed
    qed
  qed
next
  case StaticPoll
  then show ?thesis
    by (simp add: step_def static_pass_def fallback_def Let_def
             split: option.split prod.split)
next
  case FallbackPoll
  then show ?thesis by (simp add: step_def fallback_pass_def split: option.split)
next
  case Returned
  then show ?thesis by (simp add: step_def)
next
  case (Raised e)
  then show ?thesis by (simp add: step_def)
qed

lemma run_steps_self_frame:
  "workdir (self (run_steps ext obss c)) = workdir (self c) \<and>
   initial_structure (self (run_steps ext obss c)) = initial_structure (self c) \<and>
   slater_path (self (run_steps ext obss c)) = slater_path (self c) \<and>
   target_forces (self (run_steps ext obss c)) = target_forces (self c) \<and>
   waiting (self (run_steps ext obss c)) = waiting (self c)"
proof (induction obss arbitrary: c)
  case Nil
  show ?case by simp
next
  case (Cons obs obss)
  show ?case using Cons.IH [of "step ext obs c"] step_self_frame [of ext obs c] by simp
qed

lemma evaluation_events:
  assumes "evaluation ext obs c = (c1, out)"
  shows "\<exists>evs. trace c1 = trace c @ evs \<and>
               (\<forall>m. Log Debug m \<in> set evs \<longrightarrow> m = ''Present score : '') \<and> Run \<notin> set evs"
  using assms
  by (auto simp: evaluation_def evaluate_def Let_def good_tensor_def
           split: prod.splits sum.splits option.splits if_splits)

lemma decide_good_forces:
  "decide True gs drv =
     (drv(''MovedAtoms'' \<mapsto> PStr ''1:-1'', ''LatticeOpt'' \<mapsto> PBool True),
      [Log Debug ''Convergence: Internals + Cell''])"
  by (auto simp: decide_def fun_eq_iff)

lemma decide_good_stress_only:
  "decide False True drv =
     (drv(''MovedAtoms'' \<mapsto> PStr ''1:-1'', ''LatticeOpt'' \<mapsto> PBool False),
      [Log Debug ''Convergence: Internals''])"
  by (auto simp: decide_def fun_eq_iff)

lemmas sample_defs = sample_externals_def sample_job_def sample_observation_def Relaxator_def
  copy_def run_init_def step_def main_pass_def evaluate_def evaluation_def good_tensor_def
  np_max_abs_def set_convergent_forces_only_def quality_def emit_def apply_decision_def
  decide_def resubmit_def finalize_def wait_if_def Let_def new_events_def run_def
  get_final_geometry_def lattice_last_def item_last_def trend_forces_def trend_lattice_def

subsection \<open>The option \<open>ConvergentForcesOnly\<close>\<close>

text \<open>
  Claim C1, as stated: the evaluation sets \<open>ConvergentForcesOnly\<close> to false if and only
  if the forces and the stress are both absent, and keeps it true whenever at least one
  of them is present. It does not: the test of line 56 is \<open>forces is None or stress is
  None\<close>. On the sample job, a first run that reports forces and no stress is followed by
  a run submitted with the option false.
\<close>

theorem convergent_forces_only_counterexample:
  "fst (detailed_out (sample_observation (Some 0) True (Some [0]) None Map.empty)) \<noteq> None \<and>
   pc (step sample_externals (sample_observation (Some 0) True (Some [0]) None Map.empty)
         (run_init sample_externals sample_job)) = MainLoop \<and>
   driver (dftb (step sample_externals
                   (sample_observation (Some 0) True (Some [0]) None Map.empty)
                   (run_init sample_externals sample_job))) ''ConvergentForcesOnly''
     = Some (PBool False)"
  by (simp add: sample_defs)

text \<open>
  Claim C1, amended: the evaluation sets \<open>ConvergentForcesOnly\<close> to true if and only if
  the forces and the stress are both present, and to false whenever at least one of them
  is absent; this is the value the option has when the next relaxation run is submitted.
\<close>

theorem convergent_forces_only_true_iff_both_present:
  assumes "pc c = MainLoop" and "poll obs = Some rc" and "detailed_exists obs"
      and "detailed_out obs = (forces, stress, total_energy)"
  shows "driver (dftb (fst (evaluation ext obs c))) ''ConvergentForcesOnly'' =
           Some (PBool (forces \<noteq> None \<and> stress \<noteq> None)) \<and>
         (pc (step ext obs c) = MainLoop \<longrightarrow>
            driver (dftb (step ext obs c)) ''ConvergentForcesOnly'' =
              Some (PBool (forces \<noteq> None \<and> stress \<noteq> None)))"
proof -
  obtain c1 out where ev: "evaluation ext obs c = (c1, out)"
    by (cases "evaluation ext obs c")
  have d1: "driver (dftb c1) ''ConvergentForcesOnly'' =
              Some (PBool (forces \<noteq> None \<and> stress \<noteq> None))"
    using evaluation_frame(4) [OF ev] assms(4) by (simp add: set_cfo_value)
  have "driver (dftb (step ext obs c)) ''ConvergentForcesOnly'' =
          Some (PBool (forces \<noteq> None \<and> stress \<noteq> None))"
    if m: "pc (step ext obs c) = MainLoop"
  proof (cases out)
    case (Inl e)
    with step_raised [OF assms(1-3)] ev m show ?thesis by simp
  next
    case (Inr g)
    obtain gf gs where g: "g = (gf, gs)" by (cases g)
    from step_evaluated [OF assms(1-3)] ev Inr g
    have st: "step ext obs c =
               (if score c1 < 20 then resubmit ext obs (apply_decision gf gs c1)
                else finalize ext obs c1)" by simp
    show ?thesis
    proof (cases "score c1 < 20")
      case True
      with st d1 show ?thesis
        by (simp add: resubmit_simps apply_decision_simps decide_cfo)
    next
      case False
      with st m show ?thesis by (simp add: finalize_simps)
    qed
  qed
  with d1 ev show ?thesis by simp
qed

theorem convergent_forces_only_true_iff_both_present_witness:
  "driver (dftb (step sample_externals
                   (sample_observation (Some 0) True (Some [0]) (Some [0]) Map.empty)
                   (run_init sample_externals sample_job))) ''ConvergentForcesOnly''
     = Some (PBool True) \<and>
   driver (dftb (step sample_externals
                   (sample_observation (Some 0) True None (Some [0]) Map.empty)
                   (run_init sample_externals sample_job))) ''ConvergentForcesOnly''
     = Some (PBool False)"
  using convergent_forces_only_true_iff_both_present [of "run_init sample_externals sample_job"
               "sample_observation (Some 0) True (Some [0]) (Some [0]) Map.empty" 0
               "Some [0]" "Some [0]" None sample_externals]
        convergent_forces_only_true_iff_both_present [of "run_init sample_externals sample_job"
               "sample_observation (Some 0) True None (Some [0]) Map.empty" 0
               None "Some [0]" None sample_externals]
  by (simp add: sample_defs)

subsection \<open>The threshold of 20\<close>

text \<open>
  Claim C2, as stated: at an evaluation point the controller goes to the final static
  calculation if and only if the score is at least 20, and for any score below 20 it
  takes a relaxation-decision branch and resubmits a run. The second part fails when
  neither the forces nor the stress are good: the chain of lines 82 to 93 has no branch
  for that case. On the sample job, a first run with neither forces nor stress has the
  score 1 and is resubmitted, but neither of the two decisions is logged, \<open>MovedAtoms\<close>
  is not set and \<open>LatticeOpt\<close> is as the first run had it.
\<close>

theorem decision_branch_unmatched_counterexample:
  "score (step sample_externals (sample_observation (Some 0) True None None Map.empty)
         (run_init sample_externals sample_job)) < 20 \<and>
   pc (step sample_externals (sample_observation (Some 0) True None None Map.empty)
         (run_init sample_externals sample_job)) = MainLoop \<and>
   Run \<in> set (new_events (run_init sample_externals sample_job)
     (step sample_externals (sample_observation (Some 0) True None None Map.empty)
         (run_init sample_externals sample_job))) \<and>
   Log Debug ''Convergence: Internals + Cell'' \<notin> set (new_events
     (run_init sample_externals sample_job)
     (step sample_externals (sample_observation (Some 0) True None None Map.empty)
         (run_init sample_externals sample_job))) \<and>
   Log Debug ''Convergence: Internals'' \<notin> set (new_events
     (run_init sample_externals sample_job)
     (step sample_externals (sample_observation (Some 0) True None None Map.empty)
         (run_init sample_externals sample_job))) \<and>
   driver (dftb (step sample_externals (sample_observation (Some 0) True None None Map.empty)
         (run_init sample_externals sample_job))) ''MovedAtoms'' = None \<and>
   driver (dftb (step sample_externals (sample_observation (Some 0) True None None Map.empty)
         (run_init sample_externals sample_job))) ''LatticeOpt'' = Some (PBool False)"
  by (simp add: sample_defs)

text \<open>
  Claim C2, amended. At an evaluation point of the main loop (the process has exited,
  \<open>detailed.out\<close> exists and the evaluation has returned the score of this pass), the
  controller goes to the final static calculation if and only if this score is at least
  20. When it is below 20 the controller increments the iteration counter, submits a run
  and is back at the head of the main loop, after the decision branch that matches the
  classification, if one does: with good forces it moves all atoms and relaxes the cell;
  with good stress and not good forces it moves all atoms and fixes the cell; with
  neither, it takes no branch, the driver stays as the evaluation left it and no decision
  is logged.
\<close>

theorem finalizing_iff_score_at_least_20:
  assumes "pc c = MainLoop" and "poll obs = Some rc" and "detailed_exists obs"
      and "evaluation ext obs c = (c1, Inr (good_forces, good_stress))"
  shows "quality (target_forces (self c)) (fst (dftb_stdout obs)) (snd (dftb_stdout obs))
           (score c) = Inr (score c1) \<and>
         score (step ext obs c) = score c1 \<and>
         (pc (step ext obs c) = StaticPoll \<longleftrightarrow> 20 \<le> score c1) \<and>
         (Log Debug ''Final static calculation'' \<in> set (new_events c (step ext obs c))
            \<longleftrightarrow> 20 \<le> score c1) \<and>
         (score c1 < 20 \<longrightarrow>
            pc (step ext obs c) = MainLoop \<and>
            irun (step ext obs c) = irun c + 1 \<and>
            Run \<in> set (new_events c (step ext obs c)) \<and>
            (good_forces \<longrightarrow>
               driver (dftb (step ext obs c)) =
                 (driver (dftb c1))(''MovedAtoms'' \<mapsto> PStr ''1:-1'', ''LatticeOpt'' \<mapsto> PBool True) \<and>
               Log Debug ''Convergence: Internals + Cell''
                 \<in> set (new_events c (step ext obs c))) \<and>
            (\<not> good_forces \<and> good_stress \<longrightarrow>
               driver (dftb (step ext obs c)) =
                 (driver (dftb c1))(''MovedAtoms'' \<mapsto> PStr ''1:-1'', ''LatticeOpt'' \<mapsto> PBool False) \<and>
               Log Debug ''Convergence: Internals'' \<in> set (new_events c (step ext obs c))) \<and>
            (\<not> good_forces \<and> \<not> good_stress \<longrightarrow>
               driver (dftb (step ext obs c)) = driver (dftb c1) \<and>
               (\<forall>m. Log Debug m \<in> set (new_events c (step ext obs c))
                  \<longrightarrow> m = ''Present score : '')))"
proof -
  note st = step_evaluated [OF assms]
  note fr = evaluation_frame(2,3) [OF assms(4)]
  from evaluation_events [OF assms(4)] obtain evs where
    tr1: "trace c1 = trace c @ evs"
    and dbg: "\<And>m. Log Debug m \<in> set evs \<Longrightarrow> m = ''Present score : ''" by blast
  have evs: "Log Debug ''Final static calculation'' \<notin> set evs"
    using dbg [of "''Final static calculation''"] by auto
  note q = evaluation_score [OF assms(4)]
  show ?thesis
  proof (cases "score c1 < 20")
    case True
    define dec where "dec = decide good_forces good_stress (driver (dftb c1))"
    define tl where "tl = [ReadGeometryGen, GetGeometry, RollOutputs (irun c), SetInputs, Run]
                  @ wait_if (waiting (self c1))"
    have tr: "trace (step ext obs c) = trace c @ (evs @ snd dec @ tl)"
      using True st fr tr1 by (simp add: resubmit_simps apply_decision_simps dec_def tl_def)
    have ne: "new_events c (step ext obs c) = evs @ snd dec @ tl"
      by (rule new_events_append [OF tr])
    have basic: "pc (step ext obs c) = MainLoop" "irun (step ext obs c) = irun c + 1"
         "score (step ext obs c) = score c1"
         "driver (dftb (step ext obs c)) = fst dec"
      using True st fr assms(1)
      by (simp_all add: resubmit_simps apply_decision_simps dec_def)
    have tl_dbg: "Log Debug m \<notin> set tl" for m
      by (simp add: tl_def wait_if_def)
    have run: "Run \<in> set (new_events c (step ext obs c))" by (simp add: ne tl_def)
    have fin: "Log Debug ''Final static calculation'' \<notin> set (new_events c (step ext obs c))"
      using evs tl_dbg by (simp add: ne dec_def decide_events_no_final)
    have gf: "driver (dftb (step ext obs c)) =
                 (driver (dftb c1))(''MovedAtoms'' \<mapsto> PStr ''1:-1'', ''LatticeOpt'' \<mapsto> PBool True) \<and>
              Log Debug ''Convergence: Internals + Cell''
                 \<in> set (new_events c (step ext obs c))" if good_forces
      using that by (simp add: ne basic(4) dec_def decide_good_forces)
    have gs: "driver (dftb (step ext obs c)) =
                 (driver (dftb c1))(''MovedAtoms'' \<mapsto> PStr ''1:-1'', ''LatticeOpt'' \<mapsto> PBool False) \<and>
              Log Debug ''Convergence: Internals'' \<in> set (new_events c (step ext obs c))"
      if "\<not> good_forces \<and> good_stress"
      using that by (simp add: ne basic(4) dec_def decide_good_stress_only)
    have none: "driver (dftb (step ext obs c)) = driver (dftb c1) \<and>
               (\<forall>m. Log Debug m \<in> set (new_events c (step ext obs c))
                  \<longrightarrow> m = ''Present score : '')"
      if "\<not> good_forces \<and> \<not> good_stress"
    proof -
      from that have d: "dec = (driver (dftb c1), [])" by (simp add: dec_def decide_unmatched)
      show ?thesis using dbg tl_dbg by (auto simp: ne basic(4) d)
    qed
    show ?thesis
    proof (intro conjI impI)
      show "quality (target_forces (self c)) (fst (dftb_stdout obs)) (snd (dftb_stdout obs))
           (score c) = Inr (score c1)" by (rule q)
      show "score (step ext obs c) = score c1" by (rule basic(3))
      show "(pc (step ext obs c) = StaticPoll) = (20 \<le> score c1)"
        using True basic(1) by simp
      show "(Log Debug ''Final static calculation'' \<in> set (new_events c (step ext obs c)))
             = (20 \<le> score c1)" using True fin by simp
      show "pc (step ext obs c) = MainLoop" by (rule basic(1))
      show "irun (step ext obs c) = irun c + 1" by (rule basic(2))
      show "Run \<in> set (new_events c (step ext obs c))" by (rule run)
    qed (use gf gs none in blast)+
  next
    case False
    have tr: "trace (step ext obs c) =
                trace c @ (evs @ [Log Debug ''Final static calculation'', GetGeometry,
                  RollOutputs (irun c), SetInputs, Run] @ wait_if (waiting (self c1)))"
      using False st fr tr1 by (simp add: finalize_simps)
    have ne: "new_events c (step ext obs c) =
                evs @ [Log Debug ''Final static calculation'', GetGeometry,
                  RollOutputs (irun c), SetInputs, Run] @ wait_if (waiting (self c1))"
      by (rule new_events_append [OF tr])
    have "pc (step ext obs c) = StaticPoll" "score (step ext obs c) = score c1"
      using False st by (simp_all add: finalize_simps)
    with False show ?thesis
      by (simp add: ne q)
  qed
qed

theorem finalizing_iff_score_at_least_20_witness:
  "pc (step sample_externals (sample_observation (Some 0) True (Some [0]) (Some [0]) Map.empty)
         (run_init sample_externals sample_job)) = MainLoop \<and>
   driver (dftb (step sample_externals
         (sample_observation (Some 0) True (Some [0]) (Some [0]) Map.empty)
         (run_init sample_externals sample_job))) ''LatticeOpt'' = Some (PBool True) \<and>
   pc (step sample_externals
         (sample_observation (Some 0) True (Some [0]) (Some [0])
            [''max_force'' \<mapsto> [1 / 2000], ''max_lattice_force'' \<mapsto> [1 / 2000]])
         (run_init sample_externals sample_job)) = StaticPoll"
proof -
  let ?c = "run_init sample_externals sample_job"
  let ?o1 = "sample_observation (Some 0) True (Some [0]) (Some [0]) Map.empty"
  let ?o2 = "sample_observation (Some 0) True (Some [0]) (Some [0])
               [''max_force'' \<mapsto> [1 / 2000], ''max_lattice_force'' \<mapsto> [1 / 2000]]"
  let ?c1 = "fst (evaluation sample_externals ?o1 ?c)"
  let ?c2 = "fst (evaluation sample_externals ?o2 ?c)"
  have pc: "pc ?c = MainLoop" by (simp add: run_init_simps)
  have p1: "poll ?o1 = Some 0" "detailed_exists ?o1" and p2: "poll ?o2 = Some 0" "detailed_exists ?o2"
    by (simp_all add: sample_observation_def)
  have e1: "snd (evaluation sample_externals ?o1 ?c) = Inr (True, True)"
    and s1: "score ?c1 = 1"
    by (simp_all add: sample_defs)
  have e2: "snd (evaluation sample_externals ?o2 ?c) = Inr (True, True)"
    and s2: "score ?c2 = 101"
    by (simp_all add: sample_defs)
  have ev1: "evaluation sample_externals ?o1 ?c = (?c1, Inr (True, True))"
    using e1 by (simp add: prod_eq_iff)
  have ev2: "evaluation sample_externals ?o2 ?c = (?c2, Inr (True, True))"
    using e2 by (simp add: prod_eq_iff)
  note t1 = finalizing_iff_score_at_least_20 [OF pc p1 ev1]
  note t2 = finalizing_iff_score_at_least_20 [OF pc p2 ev2]
  from t1 s1 have a: "pc (step sample_externals ?o1 ?c) = MainLoop"
    and b: "driver (dftb (step sample_externals ?o1 ?c)) =
              (driver (dftb ?c1))(''MovedAtoms'' \<mapsto> PStr ''1:-1'', ''LatticeOpt'' \<mapsto> PBool True)"
    by simp_all
  from t2 s2 have c: "pc (step sample_externals ?o2 ?c) = StaticPoll" by simp
  from a b c show ?thesis by simp
qed

subsection \<open>The resubmission below the threshold\<close>

text \<open>
  Claim C5, as stated: below the threshold, the final geometry is read, symmetrized and
  adopted, the outputs are archived, the counter is incremented and a run is submitted
  only when one of the three decision branches matches, and in the fourth case the
  configuration carries over unchanged. It is not so: lines 95 to 105 come after the
  chain, not inside its branches. On the sample job, a first run with neither forces nor
  stress is classified (not good, not good), and yet the geometry read is adopted, the
  outputs are archived under index 0, the counter becomes 1, a run is submitted, and
  \<open>ConvergentForcesOnly\<close> has changed.
\<close>

theorem resubmission_unmatched_case_counterexample:
  "snd (evaluation sample_externals (sample_observation (Some 0) True None None Map.empty)
         (run_init sample_externals sample_job)) = Inr (False, False) \<and>
   score (step sample_externals (sample_observation (Some 0) True None None Map.empty)
         (run_init sample_externals sample_job)) = 1 \<and>
   irun (step sample_externals (sample_observation (Some 0) True None None Map.empty)
         (run_init sample_externals sample_job)) = 1 \<and>
   current_structure (self (step sample_externals
         (sample_observation (Some 0) True None None Map.empty)
         (run_init sample_externals sample_job))) = 2 \<and>
   new_events (run_init sample_externals sample_job)
     (step sample_externals (sample_observation (Some 0) True None None Map.empty)
         (run_init sample_externals sample_job)) =
     [Log Info ''Execution completed. Return code %d'', ReadDetailedOut, ReadDftbStdout,
      Log Debug ''Present score : '', ReadGeometryGen, GetGeometry, RollOutputs 0,
      SetInputs, Run] \<and>
   driver (dftb (step sample_externals (sample_observation (Some 0) True None None Map.empty)
         (run_init sample_externals sample_job))) ''ConvergentForcesOnly''
     \<noteq> driver (dftb (run_init sample_externals sample_job)) ''ConvergentForcesOnly''"
  by (simp add: sample_defs)

text \<open>
  Claim C5, amended: below the threshold, the final geometry is read, symmetrized and
  adopted as the current structure, the outputs are archived, the counter is incremented
  and a run is submitted in each of the four cases; in the fourth case (not good forces
  and not good stress) no decision branch matches, so the driver options are those the
  evaluation left: \<open>LatticeOpt\<close> and \<open>MovedAtoms\<close> carry over from the previous
  iteration.
\<close>

theorem resubmission_in_every_case:
  assumes "pc c = MainLoop" and "poll obs = Some rc" and "detailed_exists obs"
      and "evaluation ext obs c = (c1, Inr (good_forces, good_stress))"
      and "score c1 < 20"
  shows "current_structure (self (step ext obs c)) = symmetrize ext (geometry_gen obs) \<and>
         dftb_structure (dftb (step ext obs c)) = symmetrize ext (geometry_gen obs) \<and>
         irun (step ext obs c) = irun c + 1 \<and>
         pc (step ext obs c) = MainLoop \<and>
         new_events c1 (step ext obs c) =
           snd (decide good_forces good_stress (driver (dftb c1)))
             @ [ReadGeometryGen, GetGeometry, RollOutputs (irun c), SetInputs, Run]
             @ wait_if (waiting (self c)) \<and>
         (\<not> good_forces \<and> \<not> good_stress \<longrightarrow>
            driver (dftb (step ext obs c)) = driver (dftb c1) \<and>
            driver (dftb (step ext obs c)) ''LatticeOpt'' = driver (dftb c) ''LatticeOpt'' \<and>
            driver (dftb (step ext obs c)) ''MovedAtoms'' = driver (dftb c) ''MovedAtoms'')"
proof -
  from step_evaluated [OF assms(1-4)] assms(5)
  have st: "step ext obs c = resubmit ext obs (apply_decision good_forces good_stress c1)"
    by simp
  note fr = evaluation_frame [OF assms(4)]
  have tr: "trace (step ext obs c) =
              trace c1 @ (snd (decide good_forces good_stress (driver (dftb c1)))
                @ [ReadGeometryGen, GetGeometry, RollOutputs (irun c), SetInputs, Run]
                @ wait_if (waiting (self c)))"
    using fr(1,2) by (simp add: st resubmit_simps apply_decision_simps)
  have keep: "driver (dftb c1) ''LatticeOpt'' = driver (dftb c) ''LatticeOpt''"
             "driver (dftb c1) ''MovedAtoms'' = driver (dftb c) ''MovedAtoms''"
    using fr(4) by (simp_all add: set_convergent_forces_only_def)
  show ?thesis
    using fr(1-3) assms(1) keep
    by (simp add: new_events_append [OF tr])
       (simp add: st resubmit_simps apply_decision_simps decide_unmatched)
qed

theorem resubmission_in_every_case_witness:
  "irun (step sample_externals (sample_observation (Some 0) True None None Map.empty)
         (run_init sample_externals sample_job)) = 1 \<and>
   driver (dftb (step sample_externals (sample_observation (Some 0) True None None Map.empty)
         (run_init sample_externals sample_job))) ''LatticeOpt'' = Some (PBool False)"
  using resubmission_in_every_case [of "run_init sample_externals sample_job"
               "sample_observation (Some 0) True None None Map.empty" 0
               sample_externals
               "fst (evaluation sample_externals
                      (sample_observation (Some 0) True None None Map.empty)
                      (run_init sample_externals sample_job))" False False]
  by (simp add: sample_defs)

subsection \<open>A missing \<open>detailed.out\<close> after the first run\<close>

text \<open>
  Claim C8. If, once the process of the first run has exited (after any number of passes
  that found it still running), \<open>detailed.out\<close> does not exist, then \<open>run\<close> logs the
  error and has returned: the last event is the error, no run has been submitted after
  the first, the object is as the constructor made it, so its current structure is its
  initial structure, and no later observation changes anything.
\<close>

theorem missing_detailed_out_returns:
  assumes "list_all (\<lambda>w. poll w = None) waits" and "poll obs = Some rc"
      and "\<not> detailed_exists obs"
      and "c = run ext (waits @ [obs]) (Relaxator ext wd s sp tf w)"
  shows "pc c = Returned \<and>
         last (trace c) = Log Error ''Could not find '' \<and>
         current_structure (self c) = initial_structure (self c) \<and>
         initial_structure (self c) = symmetrize ext s \<and>
         self c = Relaxator ext wd s sp tf w \<and>
         irun c = 0 \<and> score c = 0 \<and>
         Run \<notin> set (new_events (run_init ext (Relaxator ext wd s sp tf w)) c) \<and>
         run ext (waits @ [obs] @ later) (Relaxator ext wd s sp tf w) = c"
proof -
  let ?slf = "Relaxator ext wd s sp tf w"
  let ?c0 = "run_init ext ?slf"
  let ?cw = "run_steps ext waits ?c0"
  have pc0: "pc ?c0 = MainLoop" by (simp add: run_init_simps)
  from run_steps_waiting [OF pc0 assms(1)] obtain evs where
    w: "self ?cw = self ?c0" "irun ?cw = irun ?c0" "score ?cw = score ?c0" "pc ?cw = MainLoop"
       "Run \<notin> set (new_events ?c0 ?cw)" "trace ?cw = trace ?c0 @ evs" by blast
  have c: "c = (emit [Log Info ''Execution completed. Return code %d'',
                      Log Error ''Could not find ''] ?cw)\<lparr>pc := Returned\<rparr>"
    using step_missing [OF w(4) assms(2,3)] assms(4)
    by (simp add: run_def run_steps_append)
  have tr: "trace c = trace ?c0 @ (evs @ [Log Info ''Execution completed. Return code %d'',
                      Log Error ''Could not find ''])"
    by (simp add: c w(6))
  have "Run \<notin> set evs" using w(5,6) by (simp add: new_events_def)
  then have norun: "Run \<notin> set (new_events ?c0 c)"
    by (simp add: new_events_append [OF tr])
  have pc: "pc c = Returned" by (simp add: c)
  have after: "run ext (waits @ [obs] @ later) ?slf = c"
    using run_steps_ended [of c, OF disjI1 [OF pc]] assms(4)
    by (simp add: run_def run_steps_append)
  have slf: "self c = ?slf" by (simp add: c w(1) run_init_simps)
  have "last (trace c) = Log Error ''Could not find ''" by (simp add: c)
  with pc norun after slf show ?thesis
    by (simp add: c w(2,3) run_init_simps) (simp add: Relaxator_def copy_def)
qed

theorem missing_detailed_out_returns_witness:
  "pc (run sample_externals
         ([sample_observation None False None None Map.empty,
           sample_observation None False None None Map.empty]
          @ [sample_observation (Some 1) False None None Map.empty]) sample_job) = Returned \<and>
   current_structure (self (run sample_externals
         ([sample_observation None False None None Map.empty,
           sample_observation None False None None Map.empty]
          @ [sample_observation (Some 1) False None None Map.empty]) sample_job)) = 1 \<and>
   initial_structure sample_job = 1"
  using missing_detailed_out_returns [of "[sample_observation None False None None Map.empty,
                 sample_observation None False None None Map.empty]"
               "sample_observation (Some 1) False None None Map.empty" 1
               "run sample_externals
                  ([sample_observation None False None None Map.empty,
                    sample_observation None False None None Map.empty]
                   @ [sample_observation (Some 1) False None None Map.empty]) sample_job"
               sample_externals "''work''" 1 "''sk''" "1 / 1000" False "[]"]
  by (simp add: sample_job_def sample_observation_def sample_externals_def Relaxator_def
        copy_def)

subsection \<open>What \<open>run\<close> leaves alone\<close>

text \<open>
  Claim C10. The constructor stores the symmetrized structure as the initial structure
  and a copy of it as the current structure; and whatever \<open>run\<close> observes, for however
  many passes, the object afterwards differs from the object before in its current
  structure at most: working directory, initial structure, Slater-Koster path, target
  forces and waiting flag are the same.
\<close>

theorem run_frame:
  "initial_structure (Relaxator ext wd s sp tf w) = symmetrize ext s \<and>
   current_structure (Relaxator ext wd s sp tf w) = copy (symmetrize ext s) \<and>
   workdir (self (run ext obss slf)) = workdir slf \<and>
   initial_structure (self (run ext obss slf)) = initial_structure slf \<and>
   slater_path (self (run ext obss slf)) = slater_path slf \<and>
   target_forces (self (run ext obss slf)) = target_forces slf \<and>
   waiting (self (run ext obss slf)) = waiting slf \<and>
   self (run ext obss slf) =
     slf\<lparr>current_structure := current_structure (self (run ext obss slf))\<rparr>"
proof -
  have fr: "workdir (self (run ext obss slf)) = workdir slf \<and>
   initial_structure (self (run ext obss slf)) = initial_structure slf \<and>
   slater_path (self (run ext obss slf)) = slater_path slf \<and>
   target_forces (self (run ext obss slf)) = target_forces slf \<and>
   waiting (self (run ext obss slf)) = waiting slf"
    using run_steps_self_frame [of ext obss "run_init ext slf"]
    by (simp add: run_def run_init_simps)
  then have "self (run ext obss slf) =
     slf\<lparr>current_structure := current_structure (self (run ext obss slf))\<rparr>"
    by (cases "self (run ext obss slf)", cases slf) simp
  with fr show ?thesis by (simp add: Relaxator_def)
qed

theorem run_frame_witness:
  "initial_structure
     (self (run sample_externals
              [sample_observation None True None None Map.empty,
               sample_observation (Some 0) True (Some [0]) (Some [0]) Map.empty]
              sample_job)) = 1 \<and>
   current_structure
     (self (run sample_externals
              [sample_observation None True None None Map.empty,
               sample_observation (Some 0) True (Some [0]) (Some [0]) Map.empty]
              sample_job)) = 2"
  using run_frame [of sample_externals "''work''" 1 "''sk''" "1 / 1000" False
                      "[sample_observation None True None None Map.empty,
                        sample_observation (Some 0) True (Some [0]) (Some [0]) Map.empty]"
                      sample_job]
  by (simp add: sample_defs)

end
